theory Spec2Isabelle
  imports Complex_Main
begin

section \<open>D2Q9 lattice Boltzmann solver for the lid-driven cavity (cavity\_opt1.py)\<close>

text \<open>
  The arrays of the program are numpy arrays of a floating point type. They are modelled
  with exact real entries: an array is its shape together with a function from indices to
  entries, and only the entries inside the shape mean anything. A negative numpy index
  \<open>-k\<close> along an axis of extent \<open>n\<close> is written \<open>n - k\<close>.
\<close>

subsection \<open>Errors and arrays\<close>

datatype pyerror = IndexError | ValueError | TypeError | NameError string | MPIError

text \<open>A two-dimensional array of shape \<open>(nx, ny)\<close>, such as \<open>rho_kl\<close>.\<close>

record 'a grid =
  fnx :: nat
  fny :: nat
  fval :: "nat \<Rightarrow> nat \<Rightarrow> 'a"

text \<open>A three-dimensional array of shape \<open>(9, nx, ny)\<close>, such as \<open>f_ikl\<close>:
  channel, x-position, y-position.\<close>

record 'a lattice =
  dnx :: nat
  dny :: nat
  dval :: "nat \<Rightarrow> nat \<Rightarrow> nat \<Rightarrow> 'a"

subsection \<open>Direction shorthands and lattice constants\<close>

text \<open>\<open>D = IntEnum('D', 'E N W S NE NW SW SE')\<close>: the members are numbered from 1.\<close>

datatype D = D_E | D_N | D_W | D_S | D_NE | D_NW | D_SW | D_SE

fun ch :: "D \<Rightarrow> nat" where
  "ch D_E = 1"
| "ch D_N = 2"
| "ch D_W = 3"
| "ch D_S = 4"
| "ch D_NE = 5"
| "ch D_NW = 6"
| "ch D_SW = 7"
| "ch D_SE = 8"

text \<open>\<open>c_ic\<close>: the velocity of each channel, x component and y component.\<close>

definition c_ic :: "(int \<times> int) list" where
  "c_ic = [(0, 0), (1, 0), (0, 1), (-1, 0), (0, -1), (1, 1), (-1, 1), (-1, -1), (1, -1)]"

definition w_0 :: real where "w_0 = 4 / 9"
definition w_1234 :: real where "w_1234 = 1 / 9"
definition w_5678 :: real where "w_5678 = 1 / 36"

definition w_i :: "real list" where
  "w_i = [w_0, w_1234, w_1234, w_1234, w_1234, w_5678, w_5678, w_5678, w_5678]"

subsection \<open>Equilibrium distribution\<close>

text \<open>
  The arithmetic of \<open>equilibrium\<close> is element-wise; \<open>equilibrium_cell\<close> is the body
  of the function at one cell, the list being the nine entries of the returned array.
\<close>

definition equilibrium_cell :: "real \<Rightarrow> real \<Rightarrow> real \<Rightarrow> real list" where
  "equilibrium_cell rho ux uy =
     (let cu5 = ux + uy;
          cu6 = - ux + uy;
          cu7 = - ux - uy;
          cu8 = ux - uy;
          uu = ux\<^sup>2 + uy\<^sup>2
      in [w_0 * rho * (1 - 3 / 2 * uu),
          w_1234 * rho * (1 + 3 * ux + 9 / 2 * ux\<^sup>2 - 3 / 2 * uu),
          w_1234 * rho * (1 + 3 * uy + 9 / 2 * uy\<^sup>2 - 3 / 2 * uu),
          w_1234 * rho * (1 - 3 * ux + 9 / 2 * ux\<^sup>2 - 3 / 2 * uu),
          w_1234 * rho * (1 - 3 * uy + 9 / 2 * uy\<^sup>2 - 3 / 2 * uu),
          w_5678 * rho * (1 + 3 * cu5 + 9 / 2 * cu5\<^sup>2 - 3 / 2 * uu),
          w_5678 * rho * (1 + 3 * cu6 + 9 / 2 * cu6\<^sup>2 - 3 / 2 * uu),
          w_5678 * rho * (1 + 3 * cu7 + 9 / 2 * cu7\<^sup>2 - 3 / 2 * uu),
          w_5678 * rho * (1 + 3 * cu8 + 9 / 2 * cu8\<^sup>2 - 3 / 2 * uu)])"

text \<open>
  On arrays: the three arguments have one shape in every call of the program. numpy would
  try to broadcast arguments of different shapes and raise \<open>ValueError\<close> when it cannot;
  broadcasting is not modelled, every difference of shape is the error.
\<close>

definition equilibrium ::
  "real grid \<Rightarrow> real grid \<Rightarrow> real grid \<Rightarrow> pyerror + real lattice" where
  "equilibrium rho_kl ux_kl uy_kl =
     (if fnx ux_kl = fnx rho_kl \<and> fny ux_kl = fny rho_kl \<and>
         fnx uy_kl = fnx rho_kl \<and> fny uy_kl = fny rho_kl
      then Inr \<lparr>dnx = fnx rho_kl, dny = fny rho_kl,
                dval = (\<lambda>i x y.
                  equilibrium_cell (fval rho_kl x y) (fval ux_kl x y) (fval uy_kl x y) ! i)\<rparr>
      else Inl ValueError)"

text \<open>\<open>np.sum(f_ikl, axis=0)\<close> at one cell: the sum over the nine channels.\<close>

definition chsum :: "(nat \<Rightarrow> real) \<Rightarrow> real" where
  "chsum g = (\<Sum>i\<leftarrow>[0..<9]. g i)"

subsection \<open>Collision\<close>

text \<open>
  The one partial operation of the program is the division by the density. numpy does not
  raise on a floating point division by zero: it stores a non-finite entry (\<open>nan\<close> for
  \<open>0/0\<close>, an infinity otherwise). \<open>None\<close> stands for such an entry.
\<close>

definition np_div :: "real \<Rightarrow> real \<Rightarrow> real option" where
  "np_div a b = (if b = 0 then None else Some (a / b))"

text \<open>
  The entries of \<open>f_ikl\<close> after \<open>f_ikl += omega*(equilibrium(rho_kl, ux_kl, uy_kl) - f_ikl)\<close>.
  Where the velocity is not finite the density is zero, every entry of the equilibrium
  array is a product or a difference with no value (zero times infinity, infinity minus
  infinity), and all nine channels of the cell become \<open>nan\<close>.
\<close>

definition relax :: "real \<Rightarrow> real \<Rightarrow> real \<Rightarrow> real option \<Rightarrow> real option \<Rightarrow> nat \<Rightarrow> real option" where
  "relax omega f rho ux uy i =
     (case (ux, uy) of
        (Some u, Some v) \<Rightarrow> Some (f + omega * (equilibrium_cell rho u v ! i - f))
      | _ \<Rightarrow> None)"

text \<open>The state after \<open>collide\<close>: the array mutated in place and the three returned fields.\<close>

record collided =
  f_out :: "real option lattice"
  rho_out :: "real grid"
  ux_out :: "real option grid"
  uy_out :: "real option grid"

definition collide :: "real lattice \<Rightarrow> real \<Rightarrow> collided" where
  "collide f_ikl omega =
     (let rho_kl = \<lparr>fnx = dnx f_ikl, fny = dny f_ikl,
                    fval = (\<lambda>x y. chsum (\<lambda>i. dval f_ikl i x y))\<rparr>;
          ux_kl = \<lparr>fnx = dnx f_ikl, fny = dny f_ikl,
                   fval = (\<lambda>x y. np_div (dval f_ikl 1 x y - dval f_ikl 3 x y + dval f_ikl 5 x y
                            - dval f_ikl 6 x y - dval f_ikl 7 x y + dval f_ikl 8 x y)
                            (fval rho_kl x y))\<rparr>;
          uy_kl = \<lparr>fnx = dnx f_ikl, fny = dny f_ikl,
                   fval = (\<lambda>x y. np_div (dval f_ikl 2 x y - dval f_ikl 4 x y + dval f_ikl 5 x y
                            + dval f_ikl 6 x y - dval f_ikl 7 x y - dval f_ikl 8 x y)
                            (fval rho_kl x y))\<rparr>
      in \<lparr>f_out = \<lparr>dnx = dnx f_ikl, dny = dny f_ikl,
                   dval = (\<lambda>i x y. relax omega (dval f_ikl i x y) (fval rho_kl x y)
                                     (fval ux_kl x y) (fval uy_kl x y) i)\<rparr>,
          rho_out = rho_kl, ux_out = ux_kl, uy_out = uy_kl\<rparr>)"

text \<open>The sum over the nine channels of entries that may be \<open>nan\<close>: \<open>nan\<close> as soon as
  one of them is.\<close>

definition ochsum :: "(nat \<Rightarrow> real option) \<Rightarrow> real option" where
  "ochsum g = map_option sum_list (those (map g [0..<9]))"

subsection \<open>Streaming\<close>

text \<open>
  \<open>np.roll(a, (sx, sy), axis=(0, 1))\<close> on a two-dimensional array of shape \<open>(nx, ny)\<close>:
  the entry at \<open>(x, y)\<close> moves to \<open>((x + sx) mod nx, (y + sy) mod ny)\<close>, so the entry
  found at \<open>(x, y)\<close> afterwards is the one that was at \<open>((x - sx) mod nx, (y - sy) mod ny)\<close>.
\<close>

definition roll :: "nat \<Rightarrow> nat \<Rightarrow> (nat \<Rightarrow> nat \<Rightarrow> 'a) \<Rightarrow> int \<times> int \<Rightarrow> nat \<Rightarrow> nat \<Rightarrow> 'a" where
  "roll nx ny a s =
     (\<lambda>x y. a (nat ((int x - fst s) mod int nx)) (nat ((int y - snd s) mod int ny)))"

text \<open>\<open>for i in range(1, 9): f_ikl[i] = np.roll(f_ikl[i], c_ic[i], axis=(0, 1))\<close>\<close>

definition stream :: "'a lattice \<Rightarrow> 'a lattice" where
  "stream f_ikl =
     fold (\<lambda>i f. f\<lparr>dval := (dval f)(i := roll (dnx f) (dny f) (dval f i) (c_ic ! i))\<rparr>)
       [1..<9] f_ikl"

text \<open>
  The inverse shift is not a function of the program. It is written from the words of the
  specification: the same loop, each channel shifted by its negated velocity.
\<close>

definition inverse_shift_spec :: "'a lattice \<Rightarrow> 'a lattice" where
  "inverse_shift_spec f_ikl =
     fold (\<lambda>i f. f\<lparr>dval := (dval f)(i := roll (dnx f) (dny f) (dval f i)
                                          (- fst (c_ic ! i), - snd (c_ic ! i)))\<rparr>)
       [1..<9] f_ikl"

subsection \<open>Streaming with bounce-back\<close>

text \<open>The slice assignments \<open>f[c, :, l] = v\<close>, \<open>f[c, k, :] = v\<close> and \<open>f[c, k, l] = v\<close>.\<close>

definition set_row :: "'a lattice \<Rightarrow> nat \<Rightarrow> nat \<Rightarrow> (nat \<Rightarrow> 'a) \<Rightarrow> 'a lattice" where
  "set_row f c l v = f\<lparr>dval := (\<lambda>i x y. if i = c \<and> y = l then v x else dval f i x y)\<rparr>"

definition set_col :: "'a lattice \<Rightarrow> nat \<Rightarrow> nat \<Rightarrow> (nat \<Rightarrow> 'a) \<Rightarrow> 'a lattice" where
  "set_col f c k v = f\<lparr>dval := (\<lambda>i x y. if i = c \<and> x = k then v y else dval f i x y)\<rparr>"

definition set_cell :: "'a lattice \<Rightarrow> nat \<Rightarrow> nat \<Rightarrow> nat \<Rightarrow> 'a \<Rightarrow> 'a lattice" where
  "set_cell f c k l v = f\<lparr>dval := (\<lambda>i x y. if i = c \<and> x = k \<and> y = l then v else dval f i x y)\<rparr>"

text \<open>
  \<open>stream_and_bounce_back(f_ikl, u0)\<close>. The first four lines index position 0 and position
  -1 of both axes, which raises \<open>IndexError\<close> on an axis of extent 0, before anything is
  written. \<open>top\<close> and \<open>right\<close> are the positions that the index -1 names.
\<close>

definition stream_and_bounce_back :: "real lattice \<Rightarrow> real \<Rightarrow> pyerror + real lattice" where
  "stream_and_bounce_back f_ikl u0 =
     (if dnx f_ikl = 0 \<or> dny f_ikl = 0 then Inl IndexError
      else
        let top = dny f_ikl - 1;
            right = dnx f_ikl - 1;
            fbottom_ik = (\<lambda>i x. dval f_ikl i x 0);
            ftop_ik = (\<lambda>i x. dval f_ikl i x top);
            fleft_il = (\<lambda>i y. dval f_ikl i 0 y);
            fright_il = (\<lambda>i y. dval f_ikl i right y);
            f = stream f_ikl;
            \<comment> \<open>Bottom boundary\<close>
            f = set_row f (ch D_N) 0 (fbottom_ik (ch D_S));
            f = set_row f (ch D_NE) 0 (fbottom_ik (ch D_SW));
            f = set_row f (ch D_NW) 0 (fbottom_ik (ch D_SE));
            \<comment> \<open>Top boundary - sliding lid\<close>
            rhobottom_k = (\<lambda>x. ftop_ik (ch D_NW) x + ftop_ik (ch D_N) x + ftop_ik (ch D_NE) x
                               + dval f (ch D_NW) x top + dval f (ch D_N) x top
                               + dval f (ch D_NE) x top
                               + dval f (ch D_W) x top + dval f 0 x top + dval f (ch D_E) x top);
            f = set_row f (ch D_S) top (ftop_ik (ch D_N));
            f = set_row f (ch D_SE) top
                  (\<lambda>x. ftop_ik (ch D_NW) x + 6 * (w_i ! ch D_SE) * rhobottom_k x * u0);
            f = set_row f (ch D_SW) top
                  (\<lambda>x. ftop_ik (ch D_NE) x - 6 * (w_i ! ch D_SW) * rhobottom_k x * u0);
            \<comment> \<open>Left boundary\<close>
            f = set_col f (ch D_E) 0 (fleft_il (ch D_W));
            f = set_col f (ch D_NE) 0 (fleft_il (ch D_SW));
            f = set_col f (ch D_SE) 0 (fleft_il (ch D_NW));
            \<comment> \<open>Right boundary\<close>
            f = set_col f (ch D_W) right (fright_il (ch D_E));
            f = set_col f (ch D_NW) right (fright_il (ch D_SE));
            f = set_col f (ch D_SW) right (fright_il (ch D_NE));
            \<comment> \<open>Bottom-left corner\<close>
            f = set_cell f (ch D_N) 0 0 (fbottom_ik (ch D_S) 0);
            f = set_cell f (ch D_E) 0 0 (fbottom_ik (ch D_W) 0);
            f = set_cell f (ch D_NE) 0 0 (fbottom_ik (ch D_SW) 0);
            \<comment> \<open>Bottom-right corner\<close>
            f = set_cell f (ch D_N) right 0 (fbottom_ik (ch D_S) right);
            f = set_cell f (ch D_W) right 0 (fbottom_ik (ch D_E) right);
            f = set_cell f (ch D_NW) right 0 (fbottom_ik (ch D_SE) right);
            \<comment> \<open>Top-left corner\<close>
            f = set_cell f (ch D_S) 0 top (ftop_ik (ch D_N) 0);
            f = set_cell f (ch D_E) 0 top (ftop_ik (ch D_W) 0);
            f = set_cell f (ch D_SE) 0 top (ftop_ik (ch D_NW) 0);
            \<comment> \<open>Top-right corner\<close>
            f = set_cell f (ch D_S) right top (ftop_ik (ch D_N) right);
            f = set_cell f (ch D_W) right top (ftop_ik (ch D_E) right);
            f = set_cell f (ch D_SW) right top (ftop_ik (ch D_NE) right)
        in Inr f)"

subsection \<open>Process topology\<close>

text \<open>
  The process grid is built by the MPI library, outside the program:
  \<open>Create_cart((ndx, ndy), periods=(False, False))\<close> numbers the processes row by row,
  rank \<open>px * ndy + py\<close> at coordinates \<open>(px, py)\<close>, and \<open>Shift(direction, disp)\<close>
  returns the pair (source, destination) of the ranks at coordinate minus \<open>disp\<close> and
  plus \<open>disp\<close> along the direction, \<open>MPI_PROC_NULL\<close> where the grid ends.
  \<open>MPI_PROC_NULL\<close> is a negative constant whose value depends on the MPI library; the
  program tests its sign only.
\<close>

definition MPI_PROC_NULL :: int where
  "MPI_PROC_NULL = - 1"

definition cart_rank :: "int \<times> int \<Rightarrow> int \<times> int \<Rightarrow> int" where
  "cart_rank dims c =
     (if 0 \<le> fst c \<and> fst c < fst dims \<and> 0 \<le> snd c \<and> snd c < snd dims
      then fst c * snd dims + snd c else MPI_PROC_NULL)"

definition Get_coords :: "int \<times> int \<Rightarrow> int \<Rightarrow> int \<times> int" where
  "Get_coords dims rank = (rank div snd dims, rank mod snd dims)"

definition Shift :: "int \<times> int \<Rightarrow> int \<Rightarrow> nat \<Rightarrow> int \<Rightarrow> int \<times> int" where
  "Shift dims rank direction disp =
     (let (px, py) = Get_coords dims rank
      in if direction = 0
         then (cart_rank dims (px - disp, py), cart_rank dims (px + disp, py))
         else (cart_rank dims (px, py - disp), cart_rank dims (px, py + disp)))"

record neighbours =
  left_src :: int
  left_dst :: int
  right_src :: int
  right_dst :: int
  bottom_src :: int
  bottom_dst :: int
  top_src :: int
  top_dst :: int

definition neighbours_of :: "int \<times> int \<Rightarrow> int \<Rightarrow> neighbours" where
  "neighbours_of dims rank =
     (let (ls, ld) = Shift dims rank 0 (- 1);
          (rs, rd) = Shift dims rank 0 1;
          (bs, bd) = Shift dims rank 1 (- 1);
          (ts, td) = Shift dims rank 1 1
      in \<lparr>left_src = ls, left_dst = ld, right_src = rs, right_dst = rd,
          bottom_src = bs, bottom_dst = bd, top_src = ts, top_dst = td\<rparr>)"

subsection \<open>Grid partitioning\<close>

text \<open>A Python \<open>slice(start, stop)\<close>.\<close>

record slice =
  sl_start :: int
  sl_stop :: int

text \<open>
  The positions that a slice selects on an axis of extent \<open>n\<close>: Python counts a negative
  bound from the end and clips both bounds to the axis.
\<close>

definition slice_bound :: "int \<Rightarrow> int \<Rightarrow> int" where
  "slice_bound n b = (if b < 0 then max (b + n) 0 else min b n)"

definition slice_indices :: "slice \<Rightarrow> int \<Rightarrow> nat list" where
  "slice_indices s n = [nat (slice_bound n (sl_start s)) ..< nat (slice_bound n (sl_stop s))]"

text \<open>
  The program partitions the two axes with the same statements, once with
  \<open>nx, ndx, left_dst, right_dst\<close> and once with \<open>ny, ndy, bottom_dst, top_dst\<close>.
  \<open>owned_extent\<close> is the value of \<open>local_nx\<close> (\<open>local_ny\<close>) where the slice
  \<open>slice(0, local_nx)\<close> is taken, before any ghost cell is added. The program has
  asserted before that \<open>ndx * ndy\<close> is the number of processes, so the floor division
  \<open>nx // ndx\<close> never divides by zero; on integers it is \<open>div\<close>.
\<close>

definition owned_extent :: "int \<Rightarrow> int \<Rightarrow> int \<Rightarrow> int" where
  "owned_extent n nd hi_dst =
     (let local_n = n div nd
      in if hi_dst < 0 then n - local_n * (nd - 1) else local_n)"

definition partition_axis :: "int \<Rightarrow> int \<Rightarrow> int \<Rightarrow> int \<Rightarrow> int \<times> slice" where
  "partition_axis n nd lo_dst hi_dst =
     (let local_n = owned_extent n nd hi_dst;
          without_ghosts = \<lparr>sl_start = 0, sl_stop = local_n\<rparr>;
          local_n = (if hi_dst \<ge> 0 then local_n + 1 else local_n)
      in if lo_dst \<ge> 0
         then (let local_n = local_n + 1
               in (local_n, \<lparr>sl_start = 1, sl_stop = local_n + 1\<rparr>))
         else (local_n, without_ghosts))"

record geometry =
  local_nx :: int
  local_ny :: int
  without_ghosts_x :: slice
  without_ghosts_y :: slice

definition partition :: "int \<Rightarrow> int \<Rightarrow> int \<times> int \<Rightarrow> neighbours \<Rightarrow> geometry" where
  "partition nx ny dims nb =
     (let (lx, wx) = partition_axis nx (fst dims) (left_dst nb) (right_dst nb);
          (ly, wy) = partition_axis ny (snd dims) (bottom_dst nb) (top_dst nb)
      in \<lparr>local_nx = lx, local_ny = ly, without_ghosts_x = wx, without_ghosts_y = wy\<rparr>)"

subsection \<open>Halo exchange\<close>

text \<open>A copied layer \<open>f[:, k, :]\<close> or \<open>f[:, :, l]\<close>: an array of shape \<open>(9, n)\<close>.\<close>

record 'a layer =
  llen :: nat
  lval :: "nat \<Rightarrow> nat \<Rightarrow> 'a"

text \<open>The position that a Python index names on an axis of extent \<open>n\<close>, if any.\<close>

definition py_index :: "nat \<Rightarrow> int \<Rightarrow> pyerror + nat" where
  "py_index n k =
     (let j = (if k < 0 then int n + k else k)
      in if 0 \<le> j \<and> j < int n then Inr (nat j) else Inl IndexError)"

definition bind_sum :: "'e + 'a \<Rightarrow> ('a \<Rightarrow> 'e + 'b) \<Rightarrow> 'e + 'b" where
  "bind_sum m k = (case m of Inl e \<Rightarrow> Inl e | Inr a \<Rightarrow> k a)"

fun sequence_sum :: "('e + 'a) list \<Rightarrow> 'e + 'a list" where
  "sequence_sum [] = Inr []"
| "sequence_sum (r # rs) =
     (case r of Inl e \<Rightarrow> Inl e
      | Inr a \<Rightarrow> (case sequence_sum rs of Inl e \<Rightarrow> Inl e | Inr as \<Rightarrow> Inr (a # as)))"

text \<open>\<open>f[:, k, :].copy()\<close> and \<open>f[:, :, l].copy()\<close>\<close>

definition get_x :: "'a lattice \<Rightarrow> int \<Rightarrow> pyerror + 'a layer" where
  "get_x f k = bind_sum (py_index (dnx f) k)
                 (\<lambda>j. Inr \<lparr>llen = dny f, lval = (\<lambda>i y. dval f i j y)\<rparr>)"

definition get_y :: "'a lattice \<Rightarrow> int \<Rightarrow> pyerror + 'a layer" where
  "get_y f l = bind_sum (py_index (dny f) l)
                 (\<lambda>j. Inr \<lparr>llen = dnx f, lval = (\<lambda>i x. dval f i x j)\<rparr>)"

text \<open>\<open>f[:, k, :] = recvbuf\<close> and \<open>f[:, :, l] = recvbuf\<close>, the buffer being a copy of that
  very layer that the exchange has filled or left alone.\<close>

definition put_x :: "'a lattice \<Rightarrow> int \<Rightarrow> 'a layer \<Rightarrow> pyerror + 'a lattice" where
  "put_x f k buf = bind_sum (py_index (dnx f) k)
     (\<lambda>j. Inr (f\<lparr>dval := (\<lambda>i x y. if x = j then lval buf i y else dval f i x y)\<rparr>))"

definition put_y :: "'a lattice \<Rightarrow> int \<Rightarrow> 'a layer \<Rightarrow> pyerror + 'a lattice" where
  "put_y f l buf = bind_sum (py_index (dny f) l)
     (\<lambda>j. Inr (f\<lparr>dval := (\<lambda>i x y. if y = j then lval buf i x else dval f i x y)\<rparr>))"

text \<open>
  \<open>comm.Sendrecv(sendbuf, dest, recvbuf=recvbuf, source=source)\<close>, seen from the receiving
  process. All processes run the same four exchanges in the same order, and \<open>Shift\<close> is
  symmetric: the source of a process names that process as its destination. So the message
  that arrives is the send buffer of the source in the same exchange; \<open>sent\<close> lists the
  send buffers of that exchange by rank. Nothing arrives from \<open>MPI_PROC_NULL\<close> and the
  receive buffer keeps its content. A message whose size is not that of the receive buffer
  is an error here (MPI fails on a longer one and would fill a part of the buffer with a
  shorter one; the partitioner gives neighbours equal extents across the exchange).
\<close>

definition Sendrecv :: "'a layer list \<Rightarrow> int \<Rightarrow> 'a layer \<Rightarrow> pyerror + 'a layer" where
  "Sendrecv sent source recvbuf =
     (if source < 0 then Inr recvbuf
      else let msg = sent ! nat source
           in if llen msg = llen recvbuf then Inr msg else Inl MPIError)"

text \<open>
  One of the four exchanges, for all processes at once: every process copies its receive
  layer and its send layer, the messages are delivered, and every process stores its
  receive buffer. \<open>fs\<close> lists the arrays of the processes by rank.
\<close>

definition exchange ::
  "('a lattice \<Rightarrow> int \<Rightarrow> pyerror + 'a layer) \<Rightarrow> ('a lattice \<Rightarrow> int \<Rightarrow> 'a layer \<Rightarrow> pyerror + 'a lattice) \<Rightarrow>
   int \<Rightarrow> int \<Rightarrow> int list \<Rightarrow> 'a lattice list \<Rightarrow> pyerror + 'a lattice list" where
  "exchange get put recv_at send_at sources fs =
     bind_sum (sequence_sum (map (\<lambda>f. get f recv_at) fs)) (\<lambda>recvbufs.
     bind_sum (sequence_sum (map (\<lambda>f. get f send_at) fs)) (\<lambda>sent.
     bind_sum (sequence_sum (map (\<lambda>r. Sendrecv sent (sources ! r) (recvbufs ! r))
                               [0..<length fs])) (\<lambda>received.
     sequence_sum (map (\<lambda>r. put (fs ! r) recv_at (received ! r)) [0..<length fs]))))"

text \<open>\<open>communicate(f_ikl)\<close>, run by every process of the grid \<open>dims = (ndx, ndy)\<close>.\<close>

definition communicate :: "int \<times> int \<Rightarrow> 'a lattice list \<Rightarrow> pyerror + 'a lattice list" where
  "communicate dims fs =
     (let nb = map (\<lambda>r. neighbours_of dims (int r)) [0..<length fs]
      in bind_sum (exchange get_x put_x (- 1) 1 (map left_src nb) fs) (\<lambda>fs.
         bind_sum (exchange get_x put_x 0 (- 2) (map right_src nb) fs) (\<lambda>fs.
         bind_sum (exchange get_y put_y (- 1) 1 (map bottom_src nb) fs) (\<lambda>fs.
         exchange get_y put_y 0 (- 2) (map top_src nb) fs))))"

subsection \<open>Main program\<close>

definition nsteps :: nat where
  "nsteps = 100000"

definition dump_freq :: nat where
  "dump_freq = 10000"

text \<open>
  What a module-level name is bound to: an integer, a three-dimensional array, a
  two-dimensional array, or anything else (a module, a function, the communicator, ...).
\<close>

datatype ('s, 'a) pyval = PInt int | PArr3 's | PArr2 'a | POther

text \<open>
  The run of one process: the module namespace, and the calls of \<open>save_mpiio\<close> made so far
  (field name, step index of the file name, array written).
\<close>

record ('s, 'a) run =
  globals :: "string \<rightharpoonup> ('s, 'a) pyval"
  saved :: "(string \<times> int \<times> 'a) list"

text \<open>Every name that the module binds before the loop starts, in the order of binding.\<close>

definition initial_globals :: "'s \<Rightarrow> (string \<rightharpoonup> ('s, 'a) pyval)" where
  "initial_globals f0 = map_of
     [(''sys'', POther), (''IntEnum'', POther), (''MPI'', POther), (''np'', POther),
      (''save_mpiio'', POther),
      (''ndx'', POther), (''ndy'', POther), (''nx'', POther), (''ny'', POther),
      (''dtype'', POther), (''nsteps'', PInt (int nsteps)), (''dump_freq'', PInt (int dump_freq)),
      (''omega'', POther), (''D'', POther), (''c_ic'', POther),
      (''w_0'', POther), (''w_1234'', POther), (''w_5678'', POther), (''w_i'', POther),
      (''equilibrium'', POther), (''collide'', POther), (''stream'', POther),
      (''stream_and_bounce_back'', POther), (''communicate'', POther),
      (''size'', POther), (''rank'', POther), (''comm'', POther),
      (''left_src'', POther), (''left_dst'', POther), (''right_src'', POther),
      (''right_dst'', POther), (''bottom_src'', POther), (''bottom_dst'', POther),
      (''top_src'', POther), (''top_dst'', POther),
      (''local_nx'', POther), (''local_ny'', POther),
      (''without_ghosts_x'', POther), (''without_ghosts_y'', POther),
      (''mpix'', POther), (''mpiy'', POther),
      (''f_ikl'', PArr3 f0)]"

text \<open>
  One pass of the loop body. \<open>step\<close> stands for the three calls \<open>communicate(f_ikl)\<close>,
  \<open>stream_and_bounce_back(f_ikl)\<close>, \<open>collide(f_ikl, omega)\<close> of the process: it gives the
  array after them and the returned \<open>rho_kl, ux_kl, uy_kl\<close>, or the error raised.
  \<open>owned\<close> stands for the indexing \<open>[without_ghosts_x, without_ghosts_y]\<close>.
\<close>

definition loop_body ::
  "('s \<Rightarrow> pyerror + 's \<times> 'a \<times> 'a \<times> 'a) \<Rightarrow> ('a \<Rightarrow> 'a) \<Rightarrow> nat \<Rightarrow> ('s, 'a) run \<Rightarrow> pyerror + ('s, 'a) run" where
  "loop_body step owned i r =
     (let g = (globals r)(''i'' \<mapsto> PInt (int i))
      in case g ''f_ikl'' of
           Some (PArr3 f) \<Rightarrow>
             (case step f of
                Inl e \<Rightarrow> Inl e
              | Inr (f', rho_kl, ux_kl, uy_kl) \<Rightarrow>
                  Inr \<lparr>globals = g(''f_ikl'' \<mapsto> PArr3 f', ''rho_kl'' \<mapsto> PArr2 rho_kl,
                                    ''ux_kl'' \<mapsto> PArr2 ux_kl, ''uy_kl'' \<mapsto> PArr2 uy_kl),
                       saved = (if i mod dump_freq = 0
                                then saved r @ [(''ux'', int i, owned ux_kl),
                                                (''uy'', int i, owned uy_kl)]
                                else saved r)\<rparr>)
         | Some _ \<Rightarrow> Inl TypeError
         | None \<Rightarrow> Inl (NameError ''f_ikl''))"

text \<open>\<open>for i in range(nsteps): ...\<close>, the range given as a list.\<close>

fun main_loop ::
  "('s \<Rightarrow> pyerror + 's \<times> 'a \<times> 'a \<times> 'a) \<Rightarrow> ('a \<Rightarrow> 'a) \<Rightarrow> nat list \<Rightarrow> ('s, 'a) run \<Rightarrow> pyerror + ('s, 'a) run" where
  "main_loop step owned [] r = Inr r"
| "main_loop step owned (i # is) r =
     (case loop_body step owned i r of
        Inl e \<Rightarrow> Inl e
      | Inr r' \<Rightarrow> main_loop step owned is r')"

text \<open>
  The two statements after the loop. The arguments of a call are evaluated from left to
  right: the file name needs \<open>i\<close>, then \<open>u_ckl[0, without_ghosts_x, without_ghosts_y]\<close>
  needs \<open>u_ckl\<close>. \<open>component\<close> stands for the first index of that three-dimensional array.
\<close>

definition final_dump ::
  "('s \<Rightarrow> nat \<Rightarrow> 'a) \<Rightarrow> ('a \<Rightarrow> 'a) \<Rightarrow> ('s, 'a) run \<Rightarrow> pyerror + ('s, 'a) run" where
  "final_dump component owned r =
     (case globals r ''i'' of
        None \<Rightarrow> Inl (NameError ''i'')
      | Some (PInt i) \<Rightarrow>
          (case globals r ''u_ckl'' of
             None \<Rightarrow> Inl (NameError ''u_ckl'')
           | Some (PArr3 u_ckl) \<Rightarrow>
               Inr (r\<lparr>saved := saved r @ [(''ux'', i, owned (component u_ckl 0)),
                                          (''uy'', i, owned (component u_ckl 1))]\<rparr>)
           | Some _ \<Rightarrow> Inl TypeError)
      | Some _ \<Rightarrow> Inl TypeError)"

definition main_program ::
  "('s \<Rightarrow> pyerror + 's \<times> 'a \<times> 'a \<times> 'a) \<Rightarrow> ('s \<Rightarrow> nat \<Rightarrow> 'a) \<Rightarrow> ('a \<Rightarrow> 'a) \<Rightarrow> 's \<Rightarrow> pyerror + ('s, 'a) run" where
  "main_program step component owned f0 =
     (case main_loop step owned [0..<nsteps] \<lparr>globals = initial_globals f0, saved = []\<rparr> of
        Inl e \<Rightarrow> Inl e
      | Inr r \<Rightarrow> final_dump component owned r)"

subsection \<open>Sample inputs\<close>

text \<open>Arrays used to run the definitions on concrete data.\<close>

definition sample_f :: "real lattice" where
  "sample_f = \<lparr>dnx = 3, dny = 3, dval = (\<lambda>i x y. real (100 * i + 10 * x + y))\<rparr>"

definition sample_g :: "real lattice" where
  "sample_g = \<lparr>dnx = 3, dny = 3, dval = (\<lambda>i x y. real (1000 + 100 * i + 10 * x + y))\<rparr>"

definition zero_f :: "real lattice" where
  "zero_f = \<lparr>dnx = 1, dny = 1, dval = (\<lambda>i x y. 0)\<rparr>"

definition const_field :: "nat \<Rightarrow> nat \<Rightarrow> real \<Rightarrow> real grid" where
  "const_field nx ny v = \<lparr>fnx = nx, fny = ny, fval = (\<lambda>x y. v)\<rparr>"

definition sample_row :: "real lattice" where
  "sample_row = \<lparr>dnx = 3, dny = 1, dval = (\<lambda>i x y. real (100 * i + 10 * x + y))\<rparr>"

text \<open>
  The density at the lid as the specification words it: the values of the channels NW, N,
  NE before streaming and of NW, N, NE, W, rest, E after streaming, at the cell \<open>x\<close> of the
  top row.
\<close>

definition rho_wall_spec :: "real lattice \<Rightarrow> nat \<Rightarrow> real" where
  "rho_wall_spec f x =
     (let top = dny f - 1
      in dval f (ch D_NW) x top + dval f (ch D_N) x top + dval f (ch D_NE) x top
         + dval (stream f) (ch D_NW) x top + dval (stream f) (ch D_N) x top
         + dval (stream f) (ch D_NE) x top
         + dval (stream f) (ch D_W) x top + dval (stream f) 0 x top
         + dval (stream f) (ch D_E) x top)"

subsection \<open>Shared facts\<close>

lemma upt_9: "[0..<9] = [0, 1, 2, 3, 4, 5, 6, 7, 8]"
  by (simp add: upt_rec)

lemma chsum_unfold:
  "chsum g = g 0 + g 1 + g 2 + g 3 + g 4 + g 5 + g 6 + g 7 + g 8"
  by (simp add: chsum_def upt_9)

lemma equilibrium_cell_sum: "chsum (\<lambda>i. equilibrium_cell rho ux uy ! i) = rho"
proof -
  have "chsum (\<lambda>i. equilibrium_cell rho ux uy ! i) =
        w_0 * rho * (1 - 3 / 2 * (ux\<^sup>2 + uy\<^sup>2))
      + w_1234 * rho * (1 + 3 * ux + 9 / 2 * ux\<^sup>2 - 3 / 2 * (ux\<^sup>2 + uy\<^sup>2))
      + w_1234 * rho * (1 + 3 * uy + 9 / 2 * uy\<^sup>2 - 3 / 2 * (ux\<^sup>2 + uy\<^sup>2))
      + w_1234 * rho * (1 - 3 * ux + 9 / 2 * ux\<^sup>2 - 3 / 2 * (ux\<^sup>2 + uy\<^sup>2))
      + w_1234 * rho * (1 - 3 * uy + 9 / 2 * uy\<^sup>2 - 3 / 2 * (ux\<^sup>2 + uy\<^sup>2))
      + w_5678 * rho * (1 + 3 * (ux + uy) + 9 / 2 * (ux + uy)\<^sup>2 - 3 / 2 * (ux\<^sup>2 + uy\<^sup>2))
      + w_5678 * rho * (1 + 3 * (- ux + uy) + 9 / 2 * (- ux + uy)\<^sup>2 - 3 / 2 * (ux\<^sup>2 + uy\<^sup>2))
      + w_5678 * rho * (1 + 3 * (- ux - uy) + 9 / 2 * (- ux - uy)\<^sup>2 - 3 / 2 * (ux\<^sup>2 + uy\<^sup>2))
      + w_5678 * rho * (1 + 3 * (ux - uy) + 9 / 2 * (ux - uy)\<^sup>2 - 3 / 2 * (ux\<^sup>2 + uy\<^sup>2))"
    by (simp add: chsum_unfold equilibrium_cell_def Let_def)
  also have "\<dots> = rho"
    unfolding w_0_def w_1234_def w_5678_def power2_eq_square
    by (simp add: field_simps)
  finally show ?thesis .
qed

lemma ochsum_Some:
  "(\<And>i. i < 9 \<Longrightarrow> g i = Some (h i)) \<Longrightarrow> ochsum g = Some (chsum h)"
  by (simp add: ochsum_def chsum_def upt_9)

lemma collide_cell:
  "dval (f_out (collide f omega)) i x y =
     relax omega (dval f i x y) (chsum (\<lambda>i. dval f i x y))
       (np_div (dval f 1 x y - dval f 3 x y + dval f 5 x y - dval f 6 x y - dval f 7 x y + dval f 8 x y)
               (chsum (\<lambda>i. dval f i x y)))
       (np_div (dval f 2 x y - dval f 4 x y + dval f 5 x y + dval f 6 x y - dval f 7 x y - dval f 8 x y)
               (chsum (\<lambda>i. dval f i x y))) i"
  by (simp add: collide_def Let_def)

lemma chsum_relax:
  "chsum (\<lambda>i. g i + omega * (equilibrium_cell (chsum g) u v ! i - g i)) = chsum g"
proof -
  have "chsum (\<lambda>i. g i + omega * (equilibrium_cell (chsum g) u v ! i - g i))
      = chsum g + omega * (chsum (\<lambda>i. equilibrium_cell (chsum g) u v ! i) - chsum g)"
    by (simp add: chsum_unfold algebra_simps)
  then show ?thesis by (simp add: equilibrium_cell_sum)
qed

lemma np_div_Some: "b \<noteq> 0 \<Longrightarrow> np_div a b = Some (a / b)"
  by (simp add: np_div_def)

lemma relax_Some:
  "relax omega f rho (Some u) (Some v) i = Some (f + omega * (equilibrium_cell rho u v ! i - f))"
  by (simp add: relax_def)

subsection \<open>Collision conserves mass\<close>

lemma collide_zero_density:
  "chsum (\<lambda>i. dval f i x y) = 0 \<Longrightarrow> dval (f_out (collide f omega)) i x y = None"
  by (simp add: collide_cell relax_def np_div_def)

lemma collide_finite:
  "chsum (\<lambda>i. dval f i x y) \<noteq> 0 \<Longrightarrow> dval (f_out (collide f omega)) i x y \<noteq> None"
  by (simp add: collide_cell relax_def np_div_def)

lemma ochsum_None: "g 0 = None \<Longrightarrow> ochsum g = None"
  by (simp add: ochsum_def upt_9)

lemma collide_nonzero_density:
  assumes "chsum (\<lambda>i. dval f i x y) \<noteq> 0"
  shows "ochsum (\<lambda>i. dval (f_out (collide f omega)) i x y) = Some (chsum (\<lambda>i. dval f i x y))"
proof -
  have "ochsum (\<lambda>i. dval (f_out (collide f omega)) i x y)
      = Some (chsum (\<lambda>i. dval f i x y + omega * (equilibrium_cell (chsum (\<lambda>i. dval f i x y))
          ((dval f 1 x y - dval f 3 x y + dval f 5 x y - dval f 6 x y - dval f 7 x y + dval f 8 x y)
             / chsum (\<lambda>i. dval f i x y))
          ((dval f 2 x y - dval f 4 x y + dval f 5 x y + dval f 6 x y - dval f 7 x y - dval f 8 x y)
             / chsum (\<lambda>i. dval f i x y)) ! i - dval f i x y)))"
    unfolding collide_cell np_div_Some [OF assms] relax_Some
    by (rule ochsum_Some) (rule refl)
  also have "\<dots> = Some (chsum (\<lambda>i. dval f i x y))"
    by (simp only: chsum_relax)
  finally show ?thesis .
qed

text \<open>
  Claim C1, as amended. For every array and every relaxation rate, at a cell whose density
  (the sum of its nine channels before the call) is not zero, every channel of \<open>f\<close> after
  \<open>collide(f, omega)\<close> is finite and the nine channels sum to the density; at a cell
  whose density is zero, every channel after the call is \<open>nan\<close>, and so is their sum.
\<close>

theorem collide_conserves_mass:
  "(chsum (\<lambda>i. dval f i x y) \<noteq> 0 \<longrightarrow>
      (\<forall>i. dval (f_out (collide f omega)) i x y \<noteq> None)
      \<and> ochsum (\<lambda>i. dval (f_out (collide f omega)) i x y) = Some (chsum (\<lambda>i. dval f i x y)))
   \<and> (chsum (\<lambda>i. dval f i x y) = 0 \<longrightarrow>
      (\<forall>i. dval (f_out (collide f omega)) i x y = None)
      \<and> ochsum (\<lambda>i. dval (f_out (collide f omega)) i x y) = None)"
proof (intro conjI impI allI)
  fix i assume "chsum (\<lambda>i. dval f i x y) \<noteq> 0"
  then show "dval (f_out (collide f omega)) i x y \<noteq> None" by (rule collide_finite)
next
  assume "chsum (\<lambda>i. dval f i x y) \<noteq> 0"
  then show "ochsum (\<lambda>i. dval (f_out (collide f omega)) i x y) = Some (chsum (\<lambda>i. dval f i x y))"
    by (rule collide_nonzero_density)
next
  fix i assume "chsum (\<lambda>i. dval f i x y) = 0"
  then show "dval (f_out (collide f omega)) i x y = None" by (rule collide_zero_density)
next
  assume "chsum (\<lambda>i. dval f i x y) = 0"
  then have "dval (f_out (collide f omega)) 0 x y = None" by (rule collide_zero_density)
  then show "ochsum (\<lambda>i. dval (f_out (collide f omega)) i x y) = None" by (rule ochsum_None)
qed

text \<open>
  Claim C1 as stated, for every array: it fails at a cell of density zero. In the array of
  zeros the sum of the nine channels is 0 before the call; after it the nine channels are
  \<open>nan\<close> and so is their sum, which is not 0.
\<close>

theorem collide_zero_density_counterexample:
  "chsum (\<lambda>i. dval zero_f i 0 0) = 0
   \<and> ochsum (\<lambda>i. dval (f_out (collide zero_f (17 / 10))) i 0 0) = None
   \<and> ochsum (\<lambda>i. dval (f_out (collide zero_f (17 / 10))) i 0 0)
        \<noteq> Some (chsum (\<lambda>i. dval zero_f i 0 0))"
  by (simp add: ochsum_def upt_9 collide_cell relax_def np_div_def zero_f_def chsum_unfold)

theorem collide_conserves_mass_witness:
  "chsum (\<lambda>i. dval sample_f i 1 1) \<noteq> 0
   \<and> ochsum (\<lambda>i. dval (f_out (collide sample_f (17 / 10))) i 1 1) = Some 3699
   \<and> dval (f_out (collide sample_f (17 / 10))) 3 1 1 \<noteq> None
   \<and> chsum (\<lambda>i. dval zero_f i 0 0) = 0
   \<and> dval (f_out (collide zero_f (17 / 10))) 3 0 0 = None
   \<and> ochsum (\<lambda>i. dval (f_out (collide zero_f (17 / 10))) i 0 0) = None"
proof -
  have h: "chsum (\<lambda>i. dval sample_f i 1 1) \<noteq> 0" by (simp add: chsum_unfold sample_f_def)
  have v: "chsum (\<lambda>i. dval sample_f i 1 1) = 3699" by (simp add: chsum_unfold sample_f_def)
  have z: "chsum (\<lambda>i. dval zero_f i 0 0) = 0" by (simp add: chsum_unfold zero_f_def)
  from collide_conserves_mass [of sample_f 1 1 "17 / 10"] h v
  have a: "ochsum (\<lambda>i. dval (f_out (collide sample_f (17 / 10))) i 1 1) = Some 3699"
    and b: "dval (f_out (collide sample_f (17 / 10))) 3 1 1 \<noteq> None"
    by simp_all
  from collide_conserves_mass [of zero_f 0 0 "17 / 10"] z
  have c: "dval (f_out (collide zero_f (17 / 10))) 3 0 0 = None"
    and d: "ochsum (\<lambda>i. dval (f_out (collide zero_f (17 / 10))) i 0 0) = None"
    by blast+
  show ?thesis using h z a b c d by blast
qed

subsection \<open>Zeroth moment of the equilibrium distribution\<close>

text \<open>
  Claim C2. For a density field and two velocity fields of one shape, \<open>equilibrium\<close>
  returns an array of that shape whose nine channels sum to the density at every cell;
  where the density is 1 and both velocities are 0 the nine channels are the weights
  4/9, 1/9 (four times), 1/36 (four times).
\<close>

theorem equilibrium_zeroth_moment:
  assumes "fnx ux_kl = fnx rho_kl \<and> fny ux_kl = fny rho_kl"
      and "fnx uy_kl = fnx rho_kl \<and> fny uy_kl = fny rho_kl"
  shows "\<exists>f. equilibrium rho_kl ux_kl uy_kl = Inr f \<and> dnx f = fnx rho_kl \<and> dny f = fny rho_kl
      \<and> (\<forall>x y. chsum (\<lambda>i. dval f i x y) = fval rho_kl x y)
      \<and> (\<forall>x y. fval rho_kl x y = 1 \<and> fval ux_kl x y = 0 \<and> fval uy_kl x y = 0 \<longrightarrow>
             map (\<lambda>i. dval f i x y) [0..<9]
               = [4 / 9, 1 / 9, 1 / 9, 1 / 9, 1 / 9, 1 / 36, 1 / 36, 1 / 36, 1 / 36])"
proof -
  let ?f = "\<lparr>dnx = fnx rho_kl, dny = fny rho_kl,
             dval = (\<lambda>i x y. equilibrium_cell (fval rho_kl x y) (fval ux_kl x y) (fval uy_kl x y) ! i)\<rparr>"
  have e: "equilibrium rho_kl ux_kl uy_kl = Inr ?f"
    using assms by (simp add: equilibrium_def)
  have s: "\<forall>x y. chsum (\<lambda>i. dval ?f i x y) = fval rho_kl x y"
    by (simp add: equilibrium_cell_sum)
  have w: "equilibrium_cell 1 0 0 = [4 / 9, 1 / 9, 1 / 9, 1 / 9, 1 / 9, 1 / 36, 1 / 36, 1 / 36, 1 / 36]"
    by (simp add: equilibrium_cell_def w_0_def w_1234_def w_5678_def)
  have q: "\<forall>x y. fval rho_kl x y = 1 \<and> fval ux_kl x y = 0 \<and> fval uy_kl x y = 0 \<longrightarrow>
             map (\<lambda>i. dval ?f i x y) [0..<9]
               = [4 / 9, 1 / 9, 1 / 9, 1 / 9, 1 / 9, 1 / 36, 1 / 36, 1 / 36, 1 / 36]"
    by (simp add: w upt_9)
  show ?thesis using e s q by (intro exI [of _ ?f]) simp
qed

theorem equilibrium_zeroth_moment_witness:
  "(fnx (const_field 2 2 0) = fnx (const_field 2 2 1) \<and> fny (const_field 2 2 0) = fny (const_field 2 2 1))
   \<and> (\<exists>f. equilibrium (const_field 2 2 1) (const_field 2 2 0) (const_field 2 2 0) = Inr f
        \<and> chsum (\<lambda>i. dval f i 1 1) = 1
        \<and> map (\<lambda>i. dval f i 1 1) [0..<9] = [4 / 9, 1 / 9, 1 / 9, 1 / 9, 1 / 9, 1 / 36, 1 / 36, 1 / 36, 1 / 36])"
proof -
  have h: "fnx (const_field 2 2 0) = fnx (const_field 2 2 1) \<and> fny (const_field 2 2 0) = fny (const_field 2 2 1)"
    by (simp add: const_field_def)
  obtain f where f: "equilibrium (const_field 2 2 1) (const_field 2 2 0) (const_field 2 2 0) = Inr f"
    "\<forall>x y. chsum (\<lambda>i. dval f i x y) = fval (const_field 2 2 1) x y"
    "\<forall>x y. fval (const_field 2 2 1) x y = 1 \<and> fval (const_field 2 2 0) x y = 0 \<and> fval (const_field 2 2 0) x y = 0 \<longrightarrow>
             map (\<lambda>i. dval f i x y) [0..<9]
               = [4 / 9, 1 / 9, 1 / 9, 1 / 9, 1 / 9, 1 / 36, 1 / 36, 1 / 36, 1 / 36]"
    using equilibrium_zeroth_moment [OF h h] by blast
  have "chsum (\<lambda>i. dval f i 1 1) = 1" using f(2) by (simp add: const_field_def)
  moreover have "map (\<lambda>i. dval f i 1 1) [0..<9] = [4 / 9, 1 / 9, 1 / 9, 1 / 9, 1 / 9, 1 / 36, 1 / 36, 1 / 36, 1 / 36]"
    using f(3) by (simp add: const_field_def)
  ultimately show ?thesis using h f(1) by simp
qed

subsection \<open>Streaming is a shift of each moving channel\<close>

lemma fold_roll:
  "distinct cs \<Longrightarrow>
   dnx (fold (\<lambda>i f. f\<lparr>dval := (dval f)(i := roll (dnx f) (dny f) (dval f i) (sh i))\<rparr>) cs f) = dnx f \<and>
   dny (fold (\<lambda>i f. f\<lparr>dval := (dval f)(i := roll (dnx f) (dny f) (dval f i) (sh i))\<rparr>) cs f) = dny f \<and>
   dval (fold (\<lambda>i f. f\<lparr>dval := (dval f)(i := roll (dnx f) (dny f) (dval f i) (sh i))\<rparr>) cs f) i =
     (if i \<in> set cs then roll (dnx f) (dny f) (dval f i) (sh i) else dval f i)"
  by (induction cs arbitrary: f) auto

lemma stream_dval:
  "dval (stream f) i =
     (if 1 \<le> i \<and> i < 9 then roll (dnx f) (dny f) (dval f i) (c_ic ! i) else dval f i)"
  unfolding stream_def using fold_roll [of "[1..<9]" "\<lambda>i. c_ic ! i" f i] by simp

lemma stream_shape: "dnx (stream f) = dnx f" "dny (stream f) = dny f"
  unfolding stream_def using fold_roll [of "[1..<9]" "\<lambda>i. c_ic ! i" f] by simp_all

lemma inverse_shift_dval:
  "dval (inverse_shift_spec f) i =
     (if 1 \<le> i \<and> i < 9 then roll (dnx f) (dny f) (dval f i) (- fst (c_ic ! i), - snd (c_ic ! i))
      else dval f i)"
  unfolding inverse_shift_spec_def
  using fold_roll [of "[1..<9]" "\<lambda>i. (- fst (c_ic ! i), - snd (c_ic ! i))" f i] by simp

lemma inverse_shift_shape: "dnx (inverse_shift_spec f) = dnx f" "dny (inverse_shift_spec f) = dny f"
  unfolding inverse_shift_spec_def
  using fold_roll [of "[1..<9]" "\<lambda>i. (- fst (c_ic ! i), - snd (c_ic ! i))" f] by simp_all

lemma shift_back: "x < n \<Longrightarrow> nat (((int x + s) mod int n - s) mod int n) = x"
proof -
  assume x: "x < n"
  have "((int x + s) mod int n - s) mod int n = (int x + s - s) mod int n"
    by (rule mod_diff_left_eq)
  also have "\<dots> = int x" using x by simp
  finally show ?thesis by simp
qed

lemma roll_back:
  "x < nx \<Longrightarrow> y < ny \<Longrightarrow> roll nx ny (roll nx ny a s) (- fst s, - snd s) x y = a x y"
  by (simp add: roll_def shift_back)

text \<open>
  Claim C8. \<open>stream\<close> leaves channel 0 as it is and keeps the shape, and shifting every
  moving channel back by its negated velocity after \<open>stream\<close> restores every channel at
  every cell of the array.
\<close>

theorem stream_inverse:
  assumes "x < dnx f" and "y < dny f"
  shows "dval (inverse_shift_spec (stream f)) i x y = dval f i x y
       \<and> dval (stream f) 0 = dval f 0
       \<and> (\<forall>c. 1 \<le> c \<and> c < 9 \<longrightarrow>
             dval (stream f) c = roll (dnx f) (dny f) (dval f c) (c_ic ! c))
       \<and> dnx (inverse_shift_spec (stream f)) = dnx f \<and> dny (inverse_shift_spec (stream f)) = dny f"
  using assms by (simp add: inverse_shift_dval inverse_shift_shape stream_dval stream_shape roll_back)

theorem stream_inverse_witness:
  "(1::nat) < dnx sample_f \<and> (2::nat) < dny sample_f
   \<and> dval (stream sample_f) 5 1 2 = 501 \<and> dval (inverse_shift_spec (stream sample_f)) 5 1 2 = 512
   \<and> dval sample_f 5 1 2 = 512"
proof -
  have h1: "1 < dnx sample_f" and h2: "2 < dny sample_f" by (simp_all add: sample_f_def)
  have "dval (stream sample_f) 5 1 2 = 501"
    by (simp add: stream_dval sample_f_def roll_def c_ic_def)
  moreover have "dval sample_f 5 1 2 = 512" by (simp add: sample_f_def)
  ultimately show ?thesis using h1 h2 stream_inverse [OF h1 h2, of 5] by simp
qed

subsection \<open>Streaming with bounce-back, cell by cell\<close>

lemma set_row_sel:
  "dnx (set_row f c l v) = dnx f" "dny (set_row f c l v) = dny f"
  "dval (set_row f c l v) i x y = (if i = c \<and> y = l then v x else dval f i x y)"
  by (simp_all add: set_row_def)

lemma set_col_sel:
  "dnx (set_col f c k v) = dnx f" "dny (set_col f c k v) = dny f"
  "dval (set_col f c k v) i x y = (if i = c \<and> x = k then v y else dval f i x y)"
  by (simp_all add: set_col_def)

lemma set_cell_sel:
  "dnx (set_cell f c k l v) = dnx f" "dny (set_cell f c k l v) = dny f"
  "dval (set_cell f c k l v) i x y = (if i = c \<and> x = k \<and> y = l then v else dval f i x y)"
  by (simp_all add: set_cell_def)

lemmas sbb_simps = stream_and_bounce_back_def Let_def set_row_sel set_col_sel set_cell_sel

lemma sbb_Inr:
  assumes "stream_and_bounce_back f u0 = Inr g"
  shows "dnx f \<noteq> 0" and "dny f \<noteq> 0" and "g = projr (stream_and_bounce_back f u0)"
  using assms by (auto simp add: stream_and_bounce_back_def split: if_splits)

lemma sbb_rest:
  "dnx f \<noteq> 0 \<Longrightarrow> dny f \<noteq> 0 \<Longrightarrow> dval (projr (stream_and_bounce_back f u0)) 0 x y = dval f 0 x y"
  by (simp add: sbb_simps stream_dval)


text \<open>
  Claim C10. \<open>stream_and_bounce_back\<close> never writes the rest channel: when the call
  returns, channel 0 holds at every cell what it held before. (When it raises, on an empty
  axis, nothing has been written at all.)
\<close>

theorem rest_channel_untouched:
  assumes "stream_and_bounce_back f u0 = Inr g"
  shows "dval g 0 x y = dval f 0 x y"
  using sbb_Inr [OF assms] by (simp add: sbb_rest)


lemma sbb_top_S:
  "dnx f \<noteq> 0 \<Longrightarrow> dny f \<noteq> 0 \<Longrightarrow>
   dval (projr (stream_and_bounce_back f u0)) (ch D_S) x (dny f - 1) = dval f (ch D_N) x (dny f - 1)"
  by (simp add: sbb_simps)

lemma sbb_top_SE:
  "dnx f \<noteq> 0 \<Longrightarrow> 2 \<le> dny f \<Longrightarrow> x \<noteq> 0 \<Longrightarrow>
   dval (projr (stream_and_bounce_back f u0)) (ch D_SE) x (dny f - 1)
     = dval f (ch D_NW) x (dny f - 1) + 6 * (w_i ! ch D_SE) * rho_wall_spec f x * u0"
  by (simp add: sbb_simps rho_wall_spec_def)

lemma sbb_top_SW:
  "dnx f \<noteq> 0 \<Longrightarrow> 2 \<le> dny f \<Longrightarrow> x \<noteq> dnx f - 1 \<Longrightarrow>
   dval (projr (stream_and_bounce_back f u0)) (ch D_SW) x (dny f - 1)
     = dval f (ch D_NE) x (dny f - 1) - 6 * (w_i ! ch D_SW) * rho_wall_spec f x * u0"
  by (simp add: sbb_simps rho_wall_spec_def)


lemma sbb_total:
  "dnx f \<noteq> 0 \<Longrightarrow> dny f \<noteq> 0 \<Longrightarrow>
   stream_and_bounce_back f u0 = Inr (projr (stream_and_bounce_back f u0))"
  by (simp add: stream_and_bounce_back_def Let_def)

lemma sbb_sample: "stream_and_bounce_back sample_f u0 = Inr (projr (stream_and_bounce_back sample_f u0))"
  by (rule sbb_total) (simp_all add: sample_f_def)

lemma sbb_corner_SE:
  "dnx f \<noteq> 0 \<Longrightarrow> dny f \<noteq> 0 \<Longrightarrow>
   dval (projr (stream_and_bounce_back f u0)) (ch D_SE) 0 (dny f - 1) = dval f (ch D_NW) 0 (dny f - 1)"
  by (simp add: sbb_simps)

lemma sbb_corner_SW:
  "dnx f \<noteq> 0 \<Longrightarrow> dny f \<noteq> 0 \<Longrightarrow>
   dval (projr (stream_and_bounce_back f u0)) (ch D_SW) (dnx f - 1) (dny f - 1)
     = dval f (ch D_NE) (dnx f - 1) (dny f - 1)"
  by (simp add: sbb_simps)

theorem rest_channel_untouched_witness:
  "stream_and_bounce_back sample_f (1 / 10) = Inr (projr (stream_and_bounce_back sample_f (1 / 10)))
   \<and> dval (projr (stream_and_bounce_back sample_f (1 / 10))) 0 1 2 = 12"
proof -
  have "dval sample_f 0 1 2 = 12" by (simp add: sample_f_def)
  then show ?thesis
    using sbb_sample [of "1 / 10"] rest_channel_untouched [OF sbb_sample [of "1 / 10"], of 1 2]
    by simp
qed

text \<open>
  Claim C3, as amended. On an array of at least two rows, after
  \<open>stream_and_bounce_back(f, u0)\<close>, in the top row: channel S is the value of channel N
  before streaming, at every cell; channel SE is the value of NW before streaming plus
  \<open>6 w\<^sub>S\<^sub>E \<rho>\<^sub>w\<^sub>a\<^sub>l\<^sub>l u0\<close> at every cell but the first (\<open>x = 0\<close>); channel SW is the value of
  NE before streaming minus \<open>6 w\<^sub>S\<^sub>W \<rho>\<^sub>w\<^sub>a\<^sub>l\<^sub>l u0\<close> at every cell but the last. At the two
  corners the side walls and the corner statements write last: SE at the first cell is the
  value of NW before streaming, SW at the last cell the value of NE before streaming, with
  no lid term.
\<close>

theorem lid_boundary:
  assumes "stream_and_bounce_back f u0 = Inr g" and "2 \<le> dny f"
  shows "dval g (ch D_S) x (dny f - 1) = dval f (ch D_N) x (dny f - 1)
       \<and> (x \<noteq> 0 \<longrightarrow> dval g (ch D_SE) x (dny f - 1)
             = dval f (ch D_NW) x (dny f - 1) + 6 * (w_i ! ch D_SE) * rho_wall_spec f x * u0)
       \<and> (x \<noteq> dnx f - 1 \<longrightarrow> dval g (ch D_SW) x (dny f - 1)
             = dval f (ch D_NE) x (dny f - 1) - 6 * (w_i ! ch D_SW) * rho_wall_spec f x * u0)
       \<and> dval g (ch D_SE) 0 (dny f - 1) = dval f (ch D_NW) 0 (dny f - 1)
       \<and> dval g (ch D_SW) (dnx f - 1) (dny f - 1) = dval f (ch D_NE) (dnx f - 1) (dny f - 1)"
proof -
  note g = sbb_Inr [OF assms(1)]
  have ny: "dny f \<noteq> 0" using assms(2) by simp
  show ?thesis
    unfolding g(3)
    using sbb_top_S [OF g(1) ny] sbb_top_SE [OF g(1) assms(2)] sbb_top_SW [OF g(1) assms(2)]
      sbb_corner_SE [OF g(1) ny] sbb_corner_SW [OF g(1) ny]
    by simp
qed

lemma rho_wall_sample_0: "rho_wall_spec sample_f 0 = 3075"
  by (simp add: rho_wall_spec_def stream_dval roll_def c_ic_def sample_f_def)

lemma rho_wall_sample_1: "rho_wall_spec sample_f (Suc 0) = 3105"
  by (simp add: rho_wall_spec_def stream_dval roll_def c_ic_def sample_f_def)

text \<open>
  Claim C3 as stated, for every cell of the top row: it fails at the top-left corner. On
  the sample array with \<open>u0 = 1/10\<close>, channel SE of the corner cell is 602 after the
  call, the value of NW before streaming, while the claim gives 602 + 205/4.
\<close>

theorem lid_corner_counterexample:
  "stream_and_bounce_back sample_f (1 / 10) = Inr (projr (stream_and_bounce_back sample_f (1 / 10)))
   \<and> dval (projr (stream_and_bounce_back sample_f (1 / 10))) (ch D_SE) 0 (dny sample_f - 1)
       \<noteq> dval sample_f (ch D_NW) 0 (dny sample_f - 1)
           + 6 * (w_i ! ch D_SE) * rho_wall_spec sample_f 0 * (1 / 10)
   \<and> dval (projr (stream_and_bounce_back sample_f (1 / 10))) (ch D_SE) 0 (dny sample_f - 1) = 602
   \<and> dval sample_f (ch D_NW) 0 (dny sample_f - 1)
       + 6 * (w_i ! ch D_SE) * rho_wall_spec sample_f 0 * (1 / 10) = 2613 / 4"
proof -
  have "dval (projr (stream_and_bounce_back sample_f (1 / 10))) (ch D_SE) 0 (dny sample_f - 1)
      = dval sample_f (ch D_NW) 0 (dny sample_f - 1)"
    by (rule sbb_corner_SE) (simp_all add: sample_f_def)
  moreover have "dval sample_f (ch D_NW) 0 (dny sample_f - 1) = 602"
    by (simp add: sample_f_def)
  moreover have "6 * (w_i ! ch D_SE) * rho_wall_spec sample_f 0 * (1 / 10) = 205 / 4"
    by (simp add: rho_wall_sample_0 w_i_def w_5678_def)
  moreover have "rho_wall_spec sample_f 0 \<noteq> 0 \<and> w_i ! 8 \<noteq> 0"
    by (simp add: rho_wall_sample_0 w_i_def w_5678_def)
  ultimately show ?thesis using sbb_sample [of "1 / 10"] by simp
qed

theorem lid_boundary_witness:
  "stream_and_bounce_back sample_f (1 / 10) = Inr (projr (stream_and_bounce_back sample_f (1 / 10)))
   \<and> (2::nat) \<le> dny sample_f
   \<and> dval (projr (stream_and_bounce_back sample_f (1 / 10))) (ch D_S) 1 2 = 212
   \<and> dval (projr (stream_and_bounce_back sample_f (1 / 10))) (ch D_SE) 1 2 = 612 + 207 / 4
   \<and> dval (projr (stream_and_bounce_back sample_f (1 / 10))) (ch D_SW) 1 2 = 512 - 207 / 4"
proof -
  have h: "2 \<le> dny sample_f" by (simp add: sample_f_def)
  have v: "dny sample_f - 1 = 2" "dnx sample_f - 1 = 2"
    "dval sample_f (ch D_N) 1 2 = 212" "dval sample_f (ch D_NW) 1 2 = 612"
    "dval sample_f (ch D_NE) 1 2 = 512"
    by (simp_all add: sample_f_def)
  have w: "6 * (w_i ! ch D_SE) * rho_wall_spec sample_f 1 * (1 / 10) = 207 / 4"
    "6 * (w_i ! ch D_SW) * rho_wall_spec sample_f 1 * (1 / 10) = 207 / 4"
    by (simp_all add: rho_wall_sample_1 w_i_def w_5678_def)
  show ?thesis
    using h sbb_sample [of "1 / 10"] lid_boundary [OF sbb_sample [of "1 / 10"] h, of 1] v w
    by simp
qed

text \<open>
  Why two rows: on an array of one row the top row is the bottom row, the bottom wall has
  already overwritten the channels N, NE, NW when the density at the lid is read, and the
  lid term differs from the one computed from the values after plain streaming.
\<close>

lemma lid_single_row:
  "dval (projr (stream_and_bounce_back sample_row (1 / 10))) (ch D_SE) (Suc 0) (dny sample_row - 1) = 610 + 3690 / 60
   \<and> dval sample_row (ch D_NW) (Suc 0) (dny sample_row - 1)
       + 6 * (w_i ! ch D_SE) * rho_wall_spec sample_row (Suc 0) * (1 / 10) = 610 + 3090 / 60"
  by (simp add: sbb_simps rho_wall_spec_def stream_dval roll_def c_ic_def sample_row_def w_i_def w_5678_def)










subsection \<open>Partitioning: owned extents\<close>

lemma Get_coords_rank:
  assumes "0 \<le> j" and "j < q"
  shows "Get_coords (p, q) (k * q + j) = (k, j)"
  using assms by (simp add: Get_coords_def)

lemma cart_rank_sign:
  assumes "0 \<le> q"
  shows "cart_rank (p, q) c < 0 \<longleftrightarrow> \<not> (0 \<le> fst c \<and> fst c < p \<and> 0 \<le> snd c \<and> snd c < q)"
proof (cases "0 \<le> fst c \<and> fst c < p \<and> 0 \<le> snd c \<and> snd c < q")
  case True
  then have "0 \<le> fst c * q" using assms by simp
  then have "\<not> fst c * q + snd c < 0" using True by linarith
  then show ?thesis using True by (simp add: cart_rank_def)
next
  case False
  then show ?thesis by (auto simp add: cart_rank_def MPI_PROC_NULL_def)
qed

lemma right_dst_sign:
  assumes "0 \<le> k" and "k < p" and "0 \<le> j" and "j < q"
  shows "right_dst (neighbours_of (p, q) (cart_rank (p, q) (k, j))) < 0 \<longleftrightarrow> k = p - 1"
proof -
  have r: "cart_rank (p, q) (k, j) = k * q + j" using assms by (simp add: cart_rank_def)
  have d: "right_dst (neighbours_of (p, q) (k * q + j)) = cart_rank (p, q) (k + 1, j)"
    using assms by (simp add: neighbours_of_def Shift_def Get_coords_rank Let_def)
  have q: "0 \<le> q" using assms by simp
  show ?thesis unfolding r d cart_rank_sign [OF q] using assms by auto
qed

lemma top_dst_sign:
  assumes "0 \<le> k" and "k < p" and "0 \<le> j" and "j < q"
  shows "top_dst (neighbours_of (q, p) (cart_rank (q, p) (j, k))) < 0 \<longleftrightarrow> k = p - 1"
proof -
  have r: "cart_rank (q, p) (j, k) = j * p + k" using assms by (simp add: cart_rank_def)
  have d: "top_dst (neighbours_of (q, p) (j * p + k)) = cart_rank (q, p) (j, k + 1)"
    using assms by (simp add: neighbours_of_def Shift_def Get_coords_rank Let_def)
  have p: "0 \<le> p" using assms by simp
  show ?thesis unfolding r d cart_rank_sign [OF p] using assms by auto
qed

lemma sum_list_const: "(\<And>k. k \<in> set xs \<Longrightarrow> f k = (b::int)) \<Longrightarrow> sum_list (map f xs) = int (length xs) * b"
  by (induction xs) (simp_all add: algebra_simps)

lemma sum_list_eqI: "(\<And>k. k \<in> set xs \<Longrightarrow> f k = (h k :: int)) \<Longrightarrow> sum_list (map f xs) = sum_list (map h xs)"
  by (induction xs) simp_all

lemma sum_last_differs:
  "(\<Sum>k\<leftarrow>[0..<Suc m]. if k = m then a else (b::int)) = int m * b + a"
proof -
  have "(\<Sum>k\<leftarrow>[0..<m]. if k = m then a else b) = int (length [0..<m]) * b"
    by (rule sum_list_const) simp
  then show ?thesis by simp
qed

lemma owned_extent_sum_list:
  assumes "1 \<le> p" and "\<And>k. k < nat p \<Longrightarrow> (d k < 0 \<longleftrightarrow> int k = p - 1)"
  shows "(\<Sum>k\<leftarrow>[0..<nat p]. owned_extent g p (d k)) = g"
proof -
  obtain m where m: "nat p = Suc m" using assms(1) by (cases "nat p") simp_all
  then have p: "p = int m + 1" using assms(1) by linarith
  have "(\<Sum>k\<leftarrow>[0..<Suc m]. owned_extent g p (d k))
      = (\<Sum>k\<leftarrow>[0..<Suc m]. if k = m then g - (g div p) * (p - 1) else g div p)"
  proof (rule sum_list_eqI)
    fix k assume "k \<in> set [0..<Suc m]"
    then have "k < nat p" using m by auto
    from assms(2) [OF this] show "owned_extent g p (d k) = (if k = m then g - (g div p) * (p - 1) else g div p)"
      using p by (simp add: owned_extent_def Let_def)
  qed
  also have "\<dots> = int m * (g div p) + (g - (g div p) * (p - 1))"
    by (rule sum_last_differs)
  also have "\<dots> = g" using p by (simp add: algebra_simps)
  finally show ?thesis using m by simp
qed

text \<open>
  Claim C6. For a global extent \<open>g \<ge> 1\<close> and \<open>p \<ge> 1\<close> processes along an axis (the x
  axis of a grid of \<open>p\<close> by \<open>q\<close> processes, or the y axis of a grid of \<open>q\<close> by \<open>p\<close>),
  the owned extent of the process at position \<open>k\<close> of the axis is \<open>g div p\<close> for
  \<open>k < p - 1\<close> and \<open>g - (g div p) (p - 1)\<close> for \<open>k = p - 1\<close>, and the owned extents of
  the \<open>p\<close> processes sum to \<open>g\<close>.
\<close>

theorem partition_sum:
  assumes "1 \<le> g" and "1 \<le> p" and "0 \<le> j \<and> j < q"
  shows "(\<Sum>k\<leftarrow>[0..<nat p].
            owned_extent g p (right_dst (neighbours_of (p, q) (cart_rank (p, q) (int k, j))))) = g
       \<and> (\<Sum>k\<leftarrow>[0..<nat p].
            owned_extent g p (top_dst (neighbours_of (q, p) (cart_rank (q, p) (j, int k))))) = g
       \<and> (\<forall>k. 0 \<le> k \<and> k < p \<longrightarrow>
            owned_extent g p (right_dst (neighbours_of (p, q) (cart_rank (p, q) (k, j))))
              = (if k = p - 1 then g - (g div p) * (p - 1) else g div p)
          \<and> owned_extent g p (top_dst (neighbours_of (q, p) (cart_rank (q, p) (j, k))))
              = (if k = p - 1 then g - (g div p) * (p - 1) else g div p))"
proof -
  have a: "(\<Sum>k\<leftarrow>[0..<nat p].
            owned_extent g p (right_dst (neighbours_of (p, q) (cart_rank (p, q) (int k, j))))) = g"
    using assms by (intro owned_extent_sum_list) (auto simp add: right_dst_sign)
  have b: "(\<Sum>k\<leftarrow>[0..<nat p].
            owned_extent g p (top_dst (neighbours_of (q, p) (cart_rank (q, p) (j, int k))))) = g"
    using assms by (intro owned_extent_sum_list) (auto simp add: top_dst_sign)
  have c: "\<forall>k. 0 \<le> k \<and> k < p \<longrightarrow>
            owned_extent g p (right_dst (neighbours_of (p, q) (cart_rank (p, q) (k, j))))
              = (if k = p - 1 then g - (g div p) * (p - 1) else g div p)
          \<and> owned_extent g p (top_dst (neighbours_of (q, p) (cart_rank (q, p) (j, k))))
              = (if k = p - 1 then g - (g div p) * (p - 1) else g div p)"
    using assms by (auto simp add: owned_extent_def Let_def right_dst_sign top_dst_sign)
  show ?thesis using a b c by blast
qed

lemma nb310: "neighbours_of (3, 1) 0 =
      \<lparr>left_src = 1, left_dst = - 1, right_src = - 1, right_dst = 1,
       bottom_src = - 1, bottom_dst = - 1, top_src = - 1, top_dst = - 1\<rparr>"
    by (simp add: neighbours_of_def Shift_def Get_coords_def cart_rank_def MPI_PROC_NULL_def)

lemma nb311: "neighbours_of (3, 1) 1 =
      \<lparr>left_src = 2, left_dst = 0, right_src = 0, right_dst = 2,
       bottom_src = - 1, bottom_dst = - 1, top_src = - 1, top_dst = - 1\<rparr>"
    by (simp add: neighbours_of_def Shift_def Get_coords_def cart_rank_def MPI_PROC_NULL_def)

lemma nb312: "neighbours_of (3, 1) 2 =
      \<lparr>left_src = - 1, left_dst = 1, right_src = 1, right_dst = - 1,
       bottom_src = - 1, bottom_dst = - 1, top_src = - 1, top_dst = - 1\<rparr>"
    by (simp add: neighbours_of_def Shift_def Get_coords_def cart_rank_def MPI_PROC_NULL_def)

theorem partition_sum_witness:
  "(1::int) \<le> 10 \<and> (1::int) \<le> 3 \<and> ((0::int) \<le> 0 \<and> (0::int) < 1)
   \<and> map (\<lambda>k. owned_extent 10 3 (right_dst (neighbours_of (3, 1) (cart_rank (3, 1) (int k, 0))))) [0..<nat 3]
        = [3, 3, 4]
   \<and> (\<Sum>k\<leftarrow>[0..<nat 3].
          owned_extent 10 3 (right_dst (neighbours_of (3, 1) (cart_rank (3, 1) (int k, 0))))) = 10"
proof -
  have h: "(1::int) \<le> 10" "(1::int) \<le> 3" "(0::int) \<le> 0 \<and> (0::int) < 1" by simp_all
  have u: "[0..<3] = [0, 1, 2]" by (simp add: upt_rec)
  have m: "map (\<lambda>k. owned_extent 10 3 (right_dst (neighbours_of (3, 1) (cart_rank (3, 1) (int k, 0))))) [0..<nat 3]
        = [3, 3, 4]"
    by (simp add: u cart_rank_def nb310 nb311 nb312 owned_extent_def)
  show ?thesis using h m partition_sum [OF h] by simp
qed

subsection \<open>Partitioning: local extent and owned slice\<close>

text \<open>
  What the partitioner gives along one axis: the local extent is the owned extent plus one
  cell for each neighbour, and the slice starts at 1 with a lower neighbour and at 0
  without. Its stop is taken from the local extent after both ghost cells were counted, so
  the positions it selects are the owned ones only where an upper neighbour is missing.
\<close>

lemma partition_axis_extent:
  "fst (partition_axis n nd lo hi) =
     owned_extent n nd hi + (if lo \<ge> 0 then 1 else 0) + (if hi \<ge> 0 then 1 else 0)"
  by (simp add: partition_axis_def Let_def)

lemma partition_axis_start:
  "sl_start (snd (partition_axis n nd lo hi)) = (if lo \<ge> 0 then 1 else 0)"
  by (simp add: partition_axis_def Let_def)

lemma partition_axis_stop:
  "sl_stop (snd (partition_axis n nd lo hi)) =
     (if lo \<ge> 0 then fst (partition_axis n nd lo hi) + 1 else owned_extent n nd hi)"
  by (simp add: partition_axis_def Let_def)

lemma slice_span_interior:
  assumes "lo \<ge> 0" and "hi \<ge> 0" and "0 \<le> owned_extent n nd hi"
  shows "slice_indices (snd (partition_axis n nd lo hi)) (fst (partition_axis n nd lo hi))
       = [1 ..< nat (owned_extent n nd hi) + 2]"
  using assms
  by (simp add: slice_indices_def slice_bound_def partition_axis_def Let_def nat_add_distrib)

lemma slice_span_other:
  assumes "lo < 0 \<or> hi < 0" and "0 \<le> owned_extent n nd hi"
  shows "slice_indices (snd (partition_axis n nd lo hi)) (fst (partition_axis n nd lo hi))
       = (if lo \<ge> 0 then [1 ..< nat (owned_extent n nd hi) + 1] else [0 ..< nat (owned_extent n nd hi)])"
  using assms
  by (auto simp add: slice_indices_def slice_bound_def partition_axis_def Let_def nat_add_distrib)

text \<open>
  Claim C7 at an interior process: it fails there. In a grid of 3 by 1 processes on a
  lattice of 9 by 3 cells the middle process (rank 1) has a left and a right neighbour and
  owns 3 cells along x. Its local extent is 5 and its slice is \<open>slice(1, 6)\<close>, which
  selects the positions 1, 2, 3, 4 of the local axis: four cells, the last of them the
  right ghost layer.
\<close>

theorem interior_slice_includes_ghost:
  "left_dst (neighbours_of (3, 1) 1) = 0 \<and> right_dst (neighbours_of (3, 1) 1) = 2
   \<and> owned_extent 9 3 (right_dst (neighbours_of (3, 1) 1)) = 3
   \<and> local_nx (partition 9 3 (3, 1) (neighbours_of (3, 1) 1)) = 5
   \<and> without_ghosts_x (partition 9 3 (3, 1) (neighbours_of (3, 1) 1)) = \<lparr>sl_start = 1, sl_stop = 6\<rparr>
   \<and> slice_indices (without_ghosts_x (partition 9 3 (3, 1) (neighbours_of (3, 1) 1)))
        (local_nx (partition 9 3 (3, 1) (neighbours_of (3, 1) 1))) = [1, 2, 3, 4]"
  by (simp add: nb311 partition_def partition_axis_def owned_extent_def Let_def
      slice_indices_def slice_bound_def upt_rec)

subsection \<open>Halo exchange between two processes\<close>

lemma py_index_simps:
  "1 \<le> n \<Longrightarrow> py_index n (- 1) = Inr (n - 1)"
  "1 \<le> n \<Longrightarrow> py_index n 0 = Inr 0"
  "2 \<le> n \<Longrightarrow> py_index n 1 = Inr 1"
  "2 \<le> n \<Longrightarrow> py_index n (- 2) = Inr (n - 2)"
  by (auto simp add: py_index_def Let_def nat_diff_distrib)

lemma nb210: "neighbours_of (2, 1) 0 =
      \<lparr>left_src = 1, left_dst = - 1, right_src = - 1, right_dst = 1,
       bottom_src = - 1, bottom_dst = - 1, top_src = - 1, top_dst = - 1\<rparr>"
  by (simp add: neighbours_of_def Shift_def Get_coords_def cart_rank_def MPI_PROC_NULL_def)

lemma nb211: "neighbours_of (2, 1) 1 =
      \<lparr>left_src = - 1, left_dst = 0, right_src = 0, right_dst = - 1,
       bottom_src = - 1, bottom_dst = - 1, top_src = - 1, top_dst = - 1\<rparr>"
  by (simp add: neighbours_of_def Shift_def Get_coords_def cart_rank_def MPI_PROC_NULL_def)

lemma nb120: "neighbours_of (1, 2) 0 =
      \<lparr>left_src = - 1, left_dst = - 1, right_src = - 1, right_dst = - 1,
       bottom_src = 1, bottom_dst = - 1, top_src = - 1, top_dst = 1\<rparr>"
  by (simp add: neighbours_of_def Shift_def Get_coords_def cart_rank_def MPI_PROC_NULL_def)

lemma nb121: "neighbours_of (1, 2) 1 =
      \<lparr>left_src = - 1, left_dst = - 1, right_src = - 1, right_dst = - 1,
       bottom_src = - 1, bottom_dst = 0, top_src = 0, top_dst = - 1\<rparr>"
  by (simp add: neighbours_of_def Shift_def Get_coords_def cart_rank_def MPI_PROC_NULL_def)

lemma upt_2: "[0..<Suc (Suc 0)] = [0, Suc 0]" "[0..<2] = [0, 1]"
  by (simp_all add: upt_rec)

lemmas exchange_simps = exchange_def bind_sum_def Sendrecv_def upt_2 Let_def

lemma exchange_x_from_second:
  assumes "py_index (dnx A) r = Inr ra" and "py_index (dnx B) r = Inr rb"
      and "py_index (dnx A) s = Inr sa" and "py_index (dnx B) s = Inr sb"
      and "dny A = dny B"
  shows "exchange get_x put_x r s [1, - 1] [A, B] =
     Inr [A\<lparr>dval := (\<lambda>i x y. if x = ra then dval B i sb y else dval A i x y)\<rparr>,
          B\<lparr>dval := (\<lambda>i x y. if x = rb then dval B i rb y else dval B i x y)\<rparr>]"
  using assms by (simp add: exchange_simps get_x_def put_x_def) (simp cong: if_cong)

lemma exchange_x_from_first:
  assumes "py_index (dnx A) r = Inr ra" and "py_index (dnx B) r = Inr rb"
      and "py_index (dnx A) s = Inr sa" and "py_index (dnx B) s = Inr sb"
      and "dny A = dny B"
  shows "exchange get_x put_x r s [- 1, 0] [A, B] =
     Inr [A\<lparr>dval := (\<lambda>i x y. if x = ra then dval A i ra y else dval A i x y)\<rparr>,
          B\<lparr>dval := (\<lambda>i x y. if x = rb then dval A i sa y else dval B i x y)\<rparr>]"
  using assms by (simp add: exchange_simps get_x_def put_x_def) (simp cong: if_cong)

lemma exchange_x_none:
  assumes "py_index (dnx A) r = Inr ra" and "py_index (dnx B) r = Inr rb"
      and "py_index (dnx A) s = Inr sa" and "py_index (dnx B) s = Inr sb"
  shows "exchange get_x put_x r s [- 1, - 1] [A, B] =
     Inr [A\<lparr>dval := (\<lambda>i x y. if x = ra then dval A i ra y else dval A i x y)\<rparr>,
          B\<lparr>dval := (\<lambda>i x y. if x = rb then dval B i rb y else dval B i x y)\<rparr>]"
  using assms by (simp add: exchange_simps get_x_def put_x_def) (simp cong: if_cong)

lemma exchange_y_from_second:
  assumes "py_index (dny A) r = Inr ra" and "py_index (dny B) r = Inr rb"
      and "py_index (dny A) s = Inr sa" and "py_index (dny B) s = Inr sb"
      and "dnx A = dnx B"
  shows "exchange get_y put_y r s [1, - 1] [A, B] =
     Inr [A\<lparr>dval := (\<lambda>i x y. if y = ra then dval B i x sb else dval A i x y)\<rparr>,
          B\<lparr>dval := (\<lambda>i x y. if y = rb then dval B i x rb else dval B i x y)\<rparr>]"
  using assms by (simp add: exchange_simps get_y_def put_y_def) (simp cong: if_cong)

lemma exchange_y_from_first:
  assumes "py_index (dny A) r = Inr ra" and "py_index (dny B) r = Inr rb"
      and "py_index (dny A) s = Inr sa" and "py_index (dny B) s = Inr sb"
      and "dnx A = dnx B"
  shows "exchange get_y put_y r s [- 1, 0] [A, B] =
     Inr [A\<lparr>dval := (\<lambda>i x y. if y = ra then dval A i x ra else dval A i x y)\<rparr>,
          B\<lparr>dval := (\<lambda>i x y. if y = rb then dval A i x sa else dval B i x y)\<rparr>]"
  using assms by (simp add: exchange_simps get_y_def put_y_def) (simp cong: if_cong)

lemma exchange_y_none:
  assumes "py_index (dny A) r = Inr ra" and "py_index (dny B) r = Inr rb"
      and "py_index (dny A) s = Inr sa" and "py_index (dny B) s = Inr sb"
  shows "exchange get_y put_y r s [- 1, - 1] [A, B] =
     Inr [A\<lparr>dval := (\<lambda>i x y. if y = ra then dval A i x ra else dval A i x y)\<rparr>,
          B\<lparr>dval := (\<lambda>i x y. if y = rb then dval B i x rb else dval B i x y)\<rparr>]"
  using assms by (simp add: exchange_simps get_y_def put_y_def) (simp cong: if_cong)

lemma communicate_2x1:
  assumes "2 \<le> dnx A" and "2 \<le> dny A" and "2 \<le> dnx B" and "2 \<le> dny B" and "dny A = dny B"
  shows "\<exists>A' B'. communicate (2, 1) [A, B] = Inr [A', B']
      \<and> dnx A' = dnx A \<and> dny A' = dny A \<and> dnx B' = dnx B \<and> dny B' = dny B
      \<and> (\<forall>i x y. dval A' i x y = (if x = dnx A - 1 then dval B i 1 y else dval A i x y))
      \<and> (\<forall>i x y. dval B' i x y = (if x = 0 then dval A i (dnx A - 2) y else dval B i x y))"
proof -
  have n: "1 \<le> dnx A" "1 \<le> dny A" "1 \<le> dnx B" "1 \<le> dny B" using assms by simp_all
  have ne: "dnx A - 2 \<noteq> dnx A - 1" using assms by simp
  show ?thesis
    unfolding communicate_def
    using assms ne
    by (simp add: upt_2 nb210 nb211 bind_sum_def
        exchange_x_from_second [OF py_index_simps(1) py_index_simps(1) py_index_simps(3) py_index_simps(3)]
        exchange_x_from_first [OF py_index_simps(2) py_index_simps(2) py_index_simps(4) py_index_simps(4)]
        exchange_y_none [OF py_index_simps(1) py_index_simps(1) py_index_simps(3) py_index_simps(3)]
        exchange_y_none [OF py_index_simps(2) py_index_simps(2) py_index_simps(4) py_index_simps(4)])
qed


lemma communicate_1x2:
  assumes "2 \<le> dnx A" and "2 \<le> dny A" and "2 \<le> dnx B" and "2 \<le> dny B" and "dnx A = dnx B"
  shows "\<exists>A' B'. communicate (1, 2) [A, B] = Inr [A', B']
      \<and> dnx A' = dnx A \<and> dny A' = dny A \<and> dnx B' = dnx B \<and> dny B' = dny B
      \<and> (\<forall>i x y. dval A' i x y = (if y = dny A - 1 then dval B i x 1 else dval A i x y))
      \<and> (\<forall>i x y. dval B' i x y = (if y = 0 then dval A i x (dny A - 2) else dval B i x y))"
proof -
  have ne: "dny A - 2 \<noteq> dny A - 1" using assms by simp
  show ?thesis
    unfolding communicate_def
    using assms ne
    by (simp add: upt_2 nb120 nb121 bind_sum_def
        exchange_y_from_second [OF py_index_simps(1) py_index_simps(1) py_index_simps(3) py_index_simps(3)]
        exchange_y_from_first [OF py_index_simps(2) py_index_simps(2) py_index_simps(4) py_index_simps(4)]
        exchange_x_none [OF py_index_simps(1) py_index_simps(1) py_index_simps(3) py_index_simps(3)]
        exchange_x_none [OF py_index_simps(2) py_index_simps(2) py_index_simps(4) py_index_simps(4)])
qed

text \<open>
  Claim C9. Two processes whose arrays have at least two cells along each axis and equal
  extents across the exchange: \<open>A\<close> is the array of rank 0, \<open>B\<close> that of rank 1. In a grid
  of 2 by 1 processes, \<open>communicate\<close> returns on both; the last layer along x of \<open>A\<close> then
  holds the layer \<open>x = 1\<close> that \<open>B\<close> had before, the layer \<open>x = 0\<close> of \<open>B\<close> holds the
  last but one layer that \<open>A\<close> had before, in all channels, and every other entry and
  both shapes are unchanged. In a grid of 1 by 2 processes the same holds along y.
\<close>

theorem halo_round_trip:
  assumes "2 \<le> dnx A \<and> 2 \<le> dny A" and "2 \<le> dnx B \<and> 2 \<le> dny B"
  shows "(dny A = dny B \<longrightarrow>
           (\<exists>A' B'. communicate (2, 1) [A, B] = Inr [A', B']
              \<and> dnx A' = dnx A \<and> dny A' = dny A \<and> dnx B' = dnx B \<and> dny B' = dny B
              \<and> (\<forall>i x y. dval A' i x y = (if x = dnx A - 1 then dval B i 1 y else dval A i x y))
              \<and> (\<forall>i x y. dval B' i x y = (if x = 0 then dval A i (dnx A - 2) y else dval B i x y))))
       \<and> (dnx A = dnx B \<longrightarrow>
           (\<exists>A' B'. communicate (1, 2) [A, B] = Inr [A', B']
              \<and> dnx A' = dnx A \<and> dny A' = dny A \<and> dnx B' = dnx B \<and> dny B' = dny B
              \<and> (\<forall>i x y. dval A' i x y = (if y = dny A - 1 then dval B i x 1 else dval A i x y))
              \<and> (\<forall>i x y. dval B' i x y = (if y = 0 then dval A i x (dny A - 2) else dval B i x y))))"
  using assms communicate_2x1 [of A B] communicate_1x2 [of A B] by blast

theorem halo_round_trip_witness:
  "(2 \<le> dnx sample_f \<and> 2 \<le> dny sample_f) \<and> (2 \<le> dnx sample_g \<and> 2 \<le> dny sample_g)
   \<and> dny sample_f = dny sample_g \<and> dnx sample_f = dnx sample_g
   \<and> (\<exists>A' B'. communicate (2, 1) [sample_f, sample_g] = Inr [A', B']
         \<and> dval A' 3 2 1 = 1311 \<and> dval A' 3 1 1 = 311 \<and> dval B' 3 0 1 = 311 \<and> dval B' 3 1 1 = 1311)
   \<and> (\<exists>A' B'. communicate (1, 2) [sample_f, sample_g] = Inr [A', B']
         \<and> dval A' 3 1 2 = 1311 \<and> dval A' 3 1 1 = 311 \<and> dval B' 3 1 0 = 311 \<and> dval B' 3 1 1 = 1311)"
proof -
  have h: "2 \<le> dnx sample_f \<and> 2 \<le> dny sample_f" "2 \<le> dnx sample_g \<and> 2 \<le> dny sample_g"
    and e: "dny sample_f = dny sample_g" "dnx sample_f = dnx sample_g"
    by (simp_all add: sample_f_def sample_g_def)
  obtain A' B' where r: "communicate (2, 1) [sample_f, sample_g] = Inr [A', B']"
    and a: "\<forall>i x y. dval A' i x y = (if x = dnx sample_f - 1 then dval sample_g i 1 y else dval sample_f i x y)"
    and b: "\<forall>i x y. dval B' i x y = (if x = 0 then dval sample_f i (dnx sample_f - 2) y else dval sample_g i x y)"
    using halo_round_trip [OF h] e by blast
  have x: "dval A' 3 2 1 = 1311" "dval A' 3 1 1 = 311" "dval B' 3 0 1 = 311" "dval B' 3 1 1 = 1311"
    by (simp_all add: a b sample_f_def sample_g_def)
  obtain C' D' where r': "communicate (1, 2) [sample_f, sample_g] = Inr [C', D']"
    and c: "\<forall>i x y. dval C' i x y = (if y = dny sample_f - 1 then dval sample_g i x 1 else dval sample_f i x y)"
    and d: "\<forall>i x y. dval D' i x y = (if y = 0 then dval sample_f i x (dny sample_f - 2) else dval sample_g i x y)"
    using halo_round_trip [OF h] e by blast
  have y: "dval C' 3 1 2 = 1311" "dval C' 3 1 1 = 311" "dval D' 3 1 0 = 311" "dval D' 3 1 1 = 1311"
    by (simp_all add: c d sample_f_def sample_g_def)
  show ?thesis using h e r x r' y by blast
qed

text \<open>
  The pairing of messages assumed by \<open>Sendrecv\<close>: a process is the destination of its
  source, for the same direction and displacement.
\<close>

lemma Shift_symmetric:
  assumes "0 \<le> r" and "r < p * q" and "0 < q"
      and "fst (Shift (p, q) r d disp) = s" and "0 \<le> s"
  shows "snd (Shift (p, q) s d disp) = r"
proof -
  have m: "0 \<le> r mod q" "r mod q < q" using assms(3) by simp_all
  have "r div q * q + r mod q = r" by simp
  then have le: "r div q * q \<le> r" using m(1) by linarith
  have lt: "r div q < p"
  proof (rule ccontr)
    assume "\<not> r div q < p"
    then have "p * q \<le> r div q * q" using assms(3) by (simp add: mult_right_mono)
    then show False using le assms(2) by linarith
  qed
  have k: "0 \<le> r div q" "r div q < p" "0 \<le> r mod q" "r mod q < q"
    using assms(1,3) lt m by (simp_all add: pos_imp_zdiv_nonneg_iff)
  show ?thesis
  proof (cases "d = 0")
    case True
    then have s: "s = cart_rank (p, q) (r div q - disp, r mod q)"
      using assms(4) by (simp add: Shift_def Get_coords_def)
    then have in_range: "0 \<le> r div q - disp \<and> r div q - disp < p"
      using assms(5) by (auto simp add: cart_rank_def MPI_PROC_NULL_def split: if_splits)
    then have s': "s = (r div q - disp) * q + r mod q"
      using s k by (simp add: cart_rank_def)
    have "Get_coords (p, q) s = (r div q - disp, r mod q)"
      unfolding s' using k by (simp add: Get_coords_def)
    then show ?thesis using True k by (simp add: Shift_def cart_rank_def)
  next
    case False
    then have s: "s = cart_rank (p, q) (r div q, r mod q - disp)"
      using assms(4) by (simp add: Shift_def Get_coords_def)
    then have in_range: "0 \<le> r mod q - disp \<and> r mod q - disp < q"
      using assms(5) by (auto simp add: cart_rank_def MPI_PROC_NULL_def split: if_splits)
    then have s': "s = r div q * q + (r mod q - disp)"
      using s k by (simp add: cart_rank_def)
    have "Get_coords (p, q) s = (r div q, r mod q - disp)"
      unfolding s' using in_range by (simp add: Get_coords_def)
    then show ?thesis using False k by (simp add: Shift_def cart_rank_def)
  qed
qed

subsection \<open>The dump after the loop\<close>

lemma initial_globals_lookup:
  "initial_globals f0 ''u_ckl'' = None"
  "initial_globals f0 ''f_ikl'' = Some (PArr3 f0)"
  by (simp_all add: initial_globals_def)

lemma loop_body_globals:
  assumes "loop_body step owned i r = Inr r'" and "globals r ''u_ckl'' = None"
  shows "globals r' ''u_ckl'' = None \<and> globals r' ''i'' = Some (PInt (int i))"
  using assms
  by (auto simp add: loop_body_def Let_def split: option.splits pyval.splits sum.splits)

lemma main_loop_globals:
  assumes "main_loop step owned is r = Inr r'" and "globals r ''u_ckl'' = None" and "is \<noteq> []"
  shows "globals r' ''u_ckl'' = None \<and> globals r' ''i'' = Some (PInt (int (last is)))"
  using assms
proof (induction "is" arbitrary: r)
  case Nil
  then show ?case by simp
next
  case (Cons i "is")
  from Cons.prems(1) obtain r1 where b: "loop_body step owned i r = Inr r1"
    and l: "main_loop step owned is r1 = Inr r'"
    by (auto split: sum.splits)
  note g = loop_body_globals [OF b Cons.prems(2)]
  show ?case
  proof (cases "is = []")
    case True
    then show ?thesis using l g by simp
  next
    case False
    then show ?thesis using Cons.IH [OF l _ False] g by simp
  qed
qed

lemma final_dump_unbound:
  "globals r ''u_ckl'' = None \<Longrightarrow> globals r ''i'' = Some (PInt i) \<Longrightarrow>
   final_dump component owned r = Inl (NameError ''u_ckl'')"
  by (simp add: final_dump_def)

lemma main_program_after_loop:
  assumes "main_loop step owned [0..<nsteps] \<lparr>globals = initial_globals f0, saved = []\<rparr> = Inr r"
  shows "main_program step component owned f0 = Inl (NameError ''u_ckl'')"
proof -
  have ne: "[0..<nsteps] \<noteq> []" by (simp add: nsteps_def)
  have "globals r ''u_ckl'' = None \<and> globals r ''i'' = Some (PInt (int (last [0..<nsteps])))"
    by (rule main_loop_globals [OF assms _ ne]) (simp add: initial_globals_lookup)
  then show ?thesis using assms by (simp add: main_program_def final_dump_unbound)
qed

text \<open>
  Claim C5 against the program. The two statements after the loop read \<open>u_ckl\<close>, a name
  that the module never binds: the loop binds \<open>i\<close>, \<open>rho_kl\<close>, \<open>ux_kl\<close> and \<open>uy_kl\<close>.
  Whatever the steps compute, a run whose loop completes ends in
  \<open>NameError: name 'u_ckl' is not defined\<close> and writes nothing after the loop.
\<close>

theorem final_dump_raises:
  "main_program step component owned f0 =
     (case main_loop step owned [0..<nsteps] \<lparr>globals = initial_globals f0, saved = []\<rparr> of
        Inl e \<Rightarrow> Inl e
      | Inr r \<Rightarrow> Inl (NameError ''u_ckl''))"
proof (cases "main_loop step owned [0..<nsteps] \<lparr>globals = initial_globals f0, saved = []\<rparr>")
  case (Inl e)
  then show ?thesis by (simp add: main_program_def)
next
  case (Inr r)
  then show ?thesis using main_program_after_loop [OF Inr] by simp
qed

lemma main_loop_total:
  assumes "\<And>f. \<exists>v. step f = Inr v" and "\<exists>f. globals r ''f_ikl'' = Some (PArr3 f)"
  shows "\<exists>r'. main_loop step owned is r = Inr r'"
  using assms(2)
proof (induction "is" arbitrary: r)
  case Nil
  then show ?case by simp
next
  case (Cons i "is")
  from Cons.prems obtain f where f: "globals r ''f_ikl'' = Some (PArr3 f)" by blast
  from assms(1) obtain f' rho ux uy where s: "step f = Inr (f', rho, ux, uy)"
    by (metis prod_cases4)
  obtain r1 where b: "loop_body step owned i r = Inr r1" and g: "globals r1 ''f_ikl'' = Some (PArr3 f')"
    using f s by (simp add: loop_body_def Let_def)
  from Cons.IH [of r1] g b show ?case by simp
qed

lemma final_dump_after_successful_steps:
  assumes "\<And>f. \<exists>v. step f = Inr v"
  shows "main_program step component owned f0 = Inl (NameError ''u_ckl'')"
proof -
  have "\<exists>f. globals \<lparr>globals = initial_globals f0, saved = []\<rparr> ''f_ikl'' = Some (PArr3 f)"
    by (simp add: initial_globals_lookup)
  from main_loop_total [where step = step, OF assms this]
  obtain r where "main_loop step owned [0..<nsteps] \<lparr>globals = initial_globals f0, saved = []\<rparr> = Inr r"
    by blast
  then show ?thesis by (rule main_program_after_loop)
qed

end
